theory Spec2Isabelle
  imports Main "HOL-Library.Word"
begin

section \<open>Errors\<close>

text \<open>
  The gRPC status codes (\<open>google.golang.org/grpc/codes\<close>), in the order of their
  numeric values.
\<close>

datatype codes_Code =
    OK | Canceled | Unknown | InvalidArgument | DeadlineExceeded | NotFound
  | AlreadyExists | PermissionDenied | ResourceExhausted | FailedPrecondition
  | Aborted | OutOfRange | Unimplemented | Internal | Unavailable | DataLoss
  | Unauthenticated

text \<open>
  A Go \<open>error\<close> value: a gRPC status error, the sentinel \<open>talos.ErrInvalidSchematic\<close>,
  any other error (by its message), or an error wrapping another one
  (\<open>fmt.Errorf("...: %w", err)\<close>). A nil error is \<open>None\<close> of \<open>error option\<close>.
\<close>

datatype error =
    StatusError codes_Code string
  | ErrInvalidSchematic
  | ErrorString string
  | Wrapped string error

text \<open>
  \<open>client.StatusCode(err)\<close>: \<open>OK\<close> for a nil error, else the code of the status
  error found in the chain of wrapped errors, \<open>Unknown\<close> when there is none.
\<close>

fun errorCode :: "error \<Rightarrow> codes_Code" where
  "errorCode (StatusError c msg) = c"
| "errorCode ErrInvalidSchematic = Unknown"
| "errorCode (ErrorString msg) = Unknown"
| "errorCode (Wrapped msg e) = errorCode e"

definition StatusCode :: "error option \<Rightarrow> codes_Code" where
  "StatusCode err = (case err of None \<Rightarrow> OK | Some e \<Rightarrow> errorCode e)"

text \<open>\<open>errors.Is(err, target)\<close> for a non-nil error: follows the chain of wrapped errors.\<close>

fun errors_Is :: "error \<Rightarrow> error \<Rightarrow> bool" where
  "errors_Is (Wrapped msg e) target = (Wrapped msg e = target \<or> errors_Is e target)"
| "errors_Is e target = (e = target)"

section \<open>What the remote machine returns\<close>

text \<open>
  The types of the Go standard library and of the Talos machinery that the pollers read
  are represented by what the pollers observe of them.

  A \<open>netip.Addr\<close>: whether it is valid (\<open>IsValid()\<close>), whether it lies in the
  SideroLink unique-local range (\<open>network.IsULA(addr, network.ULASideroLink)\<close>), and
  its rendering (\<open>String()\<close>).
\<close>

record netip_Addr =
  addr_IsValid :: bool
  addr_IsULA_SideroLink :: bool
  addr_String :: string

text \<open>
  A \<open>netip.Prefix\<close>: whether it is the zero value (\<open>value.IsZero\<close>), its address
  (\<open>Addr()\<close>) and its rendering (\<open>String()\<close>).
\<close>

record netip_Prefix =
  prefix_IsZero :: bool
  prefix_Addr :: netip_Addr
  prefix_String :: string

datatype nethelpers_Scope = ScopeGlobal | ScopeSite | ScopeLink | ScopeHost | ScopeNowhere

text \<open>The messages of the \<open>Version\<close> RPC; a nil \<open>Version\<close> submessage is \<open>None\<close>.\<close>

record VersionInfo =
  vi_Tag :: string
  vi_Arch :: string

record Version =
  ver_Version :: "VersionInfo option"

text \<open>The generated getters are nil-safe: on a nil message they return the zero value.\<close>

definition GetTag :: "VersionInfo option \<Rightarrow> string" where
  "GetTag v = (case v of None \<Rightarrow> [] | Some i \<Rightarrow> vi_Tag i)"

definition GetArch :: "VersionInfo option \<Rightarrow> string" where
  "GetArch v = (case v of None \<Rightarrow> [] | Some i \<Rightarrow> vi_Arch i)"

text \<open>
  A response is the list of its messages; \<open>GetMessages\<close> of a nil response is the
  empty list.
\<close>

definition GetMessages :: "'m list option \<Rightarrow> 'm list" where
  "GetMessages resp = (case resp of None \<Rightarrow> [] | Some ms \<Rightarrow> ms)"

text \<open>A disk of the \<open>Disks\<close> RPC; \<open>disk_Type\<close> is the \<open>String()\<close> of its type enum.\<close>

record Disk =
  disk_Size :: "64 word"
  disk_Model :: string
  disk_DeviceName :: string
  disk_Name :: string
  disk_Serial :: string
  disk_Uuid :: string
  disk_Wwid :: string
  disk_Type :: string
  disk_BusPath :: string
  disk_SystemDisk :: bool

record Disks =
  disks_Disks :: "Disk list"

text \<open>The resources of the remote machine: the id of the metadata and the spec fields read.\<close>

record HostnameStatus =
  hs_Hostname :: string
  hs_Domainname :: string

record NodeAddress =
  na_ID :: string
  na_Addresses :: "netip_Prefix list"

record RouteStatus =
  rs_Destination :: netip_Prefix
  rs_Gateway :: netip_Addr
  rs_Scope :: nethelpers_Scope

text \<open>
  \<open>ls_Physical\<close> is the result of the method \<open>Physical()\<close> of the link spec,
  \<open>ls_HardwareAddr\<close> the \<open>String()\<close> of the hardware address; \<open>SpeedMegabits\<close> is a Go
  \<open>int\<close>.
\<close>

record LinkStatus =
  ls_ID :: string
  ls_Physical :: bool
  ls_HardwareAddr :: string
  ls_SpeedMegabits :: int
  ls_LinkState :: bool
  ls_Vendor :: string
  ls_Product :: string

record Processor =
  pr_CoreCount :: "32 word"
  pr_ThreadCount :: "32 word"
  pr_MaxSpeed :: "32 word"
  pr_Manufacturer :: string
  pr_ProductName :: string

record MemoryModule =
  mm_Size :: "32 word"
  mm_Manufacturer :: string

record PlatformMetadata =
  pm_Platform :: string
  pm_Hostname :: string
  pm_Region :: string
  pm_Zone :: string
  pm_InstanceType :: string
  pm_InstanceID :: string
  pm_ProviderID :: string
  pm_Spot :: bool

record MetaKey =
  mk_ID :: string
  mk_Value :: string

text \<open>
  The client, as the remote machine answers it during one poll: the two unary RPCs
  return a response and an error as Go does (both can be set), a resource listing
  either fails or returns the resources in scan order, and \<open>c_SchematicID\<close> is what
  \<open>talos.GetSchematicID(ctx, c)\<close> returns for this client. A cancelled context shows
  as the error the call returns.
\<close>

record client =
  c_Version :: "Version list option \<times> error option"
  c_Disks :: "Disks list option \<times> error option"
  c_HostnameStatuses :: "error + HostnameStatus list"
  c_RouteStatuses :: "error + RouteStatus list"
  c_NodeAddresses :: "error + NodeAddress list"
  c_LinkStatuses :: "error + LinkStatus list"
  c_Processors :: "error + Processor list"
  c_MemoryModules :: "error + MemoryModule list"
  c_PlatformMetadatas :: "error + PlatformMetadata list"
  c_MetaKeys :: "error + MetaKey list"
  c_SchematicID :: "string \<times> error option"

section \<open>Info\<close>

text \<open>The entries of the machine status spec that the pollers build.\<close>

record NetworkLinkStatus =
  LinuxName :: string
  HardwareAddress :: string
  SpeedMbps :: "32 word"
  LinkUp :: bool
  nl_Description :: string

record HardwareStatus_Processor =
  CoreCount :: "32 word"
  ThreadCount :: "32 word"
  Frequency :: "32 word"
  Manufacturer :: string
  p_Description :: string

record HardwareStatus_MemoryModule =
  SizeMb :: "32 word"
  m_Description :: string

record HardwareStatus_BlockDevice =
  bd_Size :: "64 word"
  bd_Model :: string
  bd_LinuxName :: string
  bd_Name :: string
  bd_Serial :: string
  bd_Uuid :: string
  bd_Wwid :: string
  bd_Type :: string
  bd_BusPath :: string
  bd_SystemDisk :: bool

record MachineStatusSpec_PlatformMetadata =
  Platform :: string
  ms_Hostname :: string
  Region :: string
  Zone :: string
  InstanceType :: string
  InstanceId :: string
  ProviderId :: string
  Spot :: bool

record MachineStatusSpec_Schematic =
  Id :: string
  Invalid :: bool

text \<open>
  The machine labels resource: the labels of its metadata, as key-value pairs;
  \<open>Keys\<close> lists the keys.
\<close>

record MachineLabels =
  ml_Labels :: "(string \<times> string) list"

definition Keys :: "(string \<times> string) list \<Rightarrow> string list" where
  "Keys kvs = map fst kvs"

text \<open>The decoded image labels (\<open>meta.ImageLabels\<close>); a nil map is \<open>None\<close>.\<close>

record ImageLabels =
  il_Labels :: "(string \<rightharpoonup> string) option"
  il_LegacyLabels :: "(string \<rightharpoonup> string) option"

text \<open>
  The snapshot the collector fills. A nil pointer or map is \<open>None\<close>; a slice is the list
  of its elements, nil and empty alike.
\<close>

record Info =
  TalosVersion :: "string option"
  Arch :: "string option"
  Hostname :: "string option"
  Domainname :: "string option"
  Addresses :: "string list"
  DefaultGateways :: "string list"
  NetworkLinks :: "NetworkLinkStatus list"
  Processors :: "HardwareStatus_Processor list"
  MemoryModules :: "HardwareStatus_MemoryModule list"
  Blockdevices :: "HardwareStatus_BlockDevice list"
  PlatformMetadata :: "MachineStatusSpec_PlatformMetadata option"
  Schematic :: "MachineStatusSpec_Schematic option"
  ImageLabels :: "(string \<rightharpoonup> string) option"
  MaintenanceMode :: bool
  MachineLabels :: "MachineLabels option"

text \<open>
  A poll function mutates the \<open>Info\<close> it is given and returns an error or nil: the
  model returns the error and the \<open>Info\<close> as the call leaves it, also when it fails.
\<close>

type_synonym machinePollFunction = "client \<Rightarrow> Info \<Rightarrow> error option \<times> Info"

section \<open>Scanning resources\<close>

text \<open>
  Modelled from the spec: the loop of \<open>forEachResource\<close>, the helper of package
  \<open>machine\<close> that the resource pollers call and whose source is missing. By the spec
  a resource poller "scans matching resources" of its type: the callback is run on
  every listed resource in scan order, and the first error of a callback ends the scan
  and is returned.
\<close>

fun scanResources ::
  "'r list \<Rightarrow> ('r \<Rightarrow> Info \<Rightarrow> error option \<times> Info) \<Rightarrow> Info \<Rightarrow> error option \<times> Info" where
  "scanResources [] callback info = (None, info)"
| "scanResources (r # rs) callback info =
     (case callback r info of
        (Some err, info') \<Rightarrow> (Some err, info')
      | (None, info') \<Rightarrow> scanResources rs callback info')"

text \<open>
  Modelled from the spec: \<open>forEachResource\<close> itself, whose source is missing. The
  resources are listed first, and a failed or cancelled listing is the poller's failure:
  its error is returned as it is, before any callback has run. The namespace and type
  arguments of the Go function select the listing; here the listing is passed.
\<close>

definition forEachResource ::
  "error + 'r list \<Rightarrow> ('r \<Rightarrow> Info \<Rightarrow> error option \<times> Info) \<Rightarrow> Info \<Rightarrow> error option \<times> Info" where
  "forEachResource listing callback info =
     (case listing of
        Inl err \<Rightarrow> (Some err, info)
      | Inr items \<Rightarrow> scanResources items callback info)"

text \<open>
  A panic of the Go runtime: the one \<open>poll\<close> raises for an unknown poller, with the
  poller's name, and the dereference of a nil pointer.
\<close>

datatype panic = UnknownPoller string | NilPointerDereference

text \<open>
  Modelled from the spec: the same loop of \<open>forEachResource\<close>, whose source is missing,
  for a callback that can panic. A panic of the callback ends the scan and propagates
  to the caller; otherwise the scan goes as above.
\<close>

fun scanResourcesP ::
  "'r list \<Rightarrow> ('r \<Rightarrow> Info \<Rightarrow> panic + error option \<times> Info) \<Rightarrow> Info
     \<Rightarrow> panic + error option \<times> Info" where
  "scanResourcesP [] callback info = Inr (None, info)"
| "scanResourcesP (r # rs) callback info =
     (case callback r info of
        Inl p \<Rightarrow> Inl p
      | Inr (Some err, info') \<Rightarrow> Inr (Some err, info')
      | Inr (None, info') \<Rightarrow> scanResourcesP rs callback info')"

text \<open>
  Modelled from the spec: \<open>forEachResource\<close>, whose source is missing, for a callback
  that can panic: the listing and its failure as above, the loop with the panic.
\<close>

definition forEachResourceP ::
  "error + 'r list \<Rightarrow> ('r \<Rightarrow> Info \<Rightarrow> panic + error option \<times> Info) \<Rightarrow> Info
     \<Rightarrow> panic + error option \<times> Info" where
  "forEachResourceP listing callback info =
     (case listing of
        Inl err \<Rightarrow> Inr (Some err, info)
      | Inr items \<Rightarrow> scanResourcesP items callback info)"

section \<open>The pollers\<close>

definition pollVersion :: machinePollFunction where
  "pollVersion c info =
     (case c_Version c of (versionResp, err) \<Rightarrow>
        if err \<noteq> None \<and> StatusCode err \<noteq> Unimplemented then (err, info)
        else (None,
              foldl (\<lambda>i msg. i\<lparr>TalosVersion := Some (GetTag (ver_Version msg)),
                                Arch := Some (GetArch (ver_Version msg))\<rparr>)
                info (GetMessages versionResp)))"

definition pollHostname :: machinePollFunction where
  "pollHostname c info =
     forEachResource (c_HostnameStatuses c)
       (\<lambda>r i. (None, i\<lparr>Hostname := Some (hs_Hostname r),
                           Domainname := Some (hs_Domainname r)\<rparr>))
       info"

text \<open>
  The ids of the node address resources (Talos machinery):
  \<open>FilteredNodeAddressID(kind, filterID)\<close> is \<open>kind + "-" + filterID\<close>.
\<close>

definition NodeAddressCurrentID :: string where
  "NodeAddressCurrentID = ''current''"

definition NodeAddressFilterNoK8s :: string where
  "NodeAddressFilterNoK8s = ''no-k8s''"

definition FilteredNodeAddressID :: "string \<Rightarrow> string \<Rightarrow> string" where
  "FilteredNodeAddressID kind filterID = kind @ ''-'' @ filterID"

definition filterAddresses :: "bool \<Rightarrow> NodeAddress \<Rightarrow> bool" where
  "filterAddresses maintenanceMode =
     (if maintenanceMode then (\<lambda>r. na_ID r = NodeAddressCurrentID)
      else (\<lambda>r. na_ID r = FilteredNodeAddressID NodeAddressCurrentID NodeAddressFilterNoK8s))"

text \<open>The inner loop of \<open>pollAddresses\<close>: SideroLink addresses are skipped.\<close>

fun appendAddresses :: "string list \<Rightarrow> netip_Prefix list \<Rightarrow> string list" where
  "appendAddresses acc [] = acc"
| "appendAddresses acc (addr # addrs) =
     (if addr_IsULA_SideroLink (prefix_Addr addr) then appendAddresses acc addrs
      else appendAddresses (acc @ [prefix_String addr]) addrs)"

definition pollAddresses :: machinePollFunction where
  "pollAddresses c info =
     forEachResource (c_NodeAddresses c)
       (\<lambda>r i.
          if (if MaintenanceMode i then na_ID r \<noteq> NodeAddressCurrentID
              else na_ID r \<noteq> FilteredNodeAddressID NodeAddressCurrentID NodeAddressFilterNoK8s)
          then (None, i)
          else (None, i\<lparr>Addresses := appendAddresses [] (na_Addresses r)\<rparr>))
       info"

definition filterRoutes :: "RouteStatus \<Rightarrow> bool" where
  "filterRoutes r \<longleftrightarrow>
     prefix_IsZero (rs_Destination r) \<and> addr_IsValid (rs_Gateway r) \<and> rs_Scope r = ScopeGlobal"

definition pollRoutes :: machinePollFunction where
  "pollRoutes c info =
     forEachResource (c_RouteStatuses c)
       (\<lambda>r i.
          if prefix_IsZero (rs_Destination r) \<and> addr_IsValid (rs_Gateway r)
             \<and> rs_Scope r = ScopeGlobal
          then (None, i\<lparr>DefaultGateways := DefaultGateways i @ [addr_String (rs_Gateway r)]\<rparr>)
          else (None, i))
       (info\<lparr>DefaultGateways := []\<rparr>)"

definition filterNetworkLinks :: "LinkStatus \<Rightarrow> bool" where
  "filterNetworkLinks r = ls_Physical r"

text \<open>The conversion \<open>uint32(n)\<close> of a Go \<open>int\<close> keeps the low 32 bits.\<close>

definition uint32 :: "int \<Rightarrow> 32 word" where
  "uint32 n = word_of_int n"

definition pollNetworkLinks :: machinePollFunction where
  "pollNetworkLinks c info =
     forEachResource (c_LinkStatuses c)
       (\<lambda>r i.
          if \<not> ls_Physical r then (None, i)
          else (None, i\<lparr>NetworkLinks := NetworkLinks i @
                  [\<lparr>LinuxName = ls_ID r,
                    HardwareAddress = ls_HardwareAddr r,
                    SpeedMbps = uint32 (ls_SpeedMegabits r),
                    LinkUp = ls_LinkState r,
                    nl_Description = ls_Vendor r @ '' '' @ ls_Product r\<rparr>]\<rparr>))
       (info\<lparr>NetworkLinks := []\<rparr>)"

definition pollProcessors :: machinePollFunction where
  "pollProcessors c info =
     forEachResource (c_Processors c)
       (\<lambda>r i.
          if pr_CoreCount r = 0 \<or> pr_MaxSpeed r = 0 then (None, i)
          else (None, i\<lparr>Processors := Processors i @
                  [\<lparr>CoreCount = pr_CoreCount r,
                    ThreadCount = pr_ThreadCount r,
                    Frequency = pr_MaxSpeed r,
                    Manufacturer = pr_Manufacturer r,
                    p_Description = pr_Manufacturer r @ '' '' @ pr_ProductName r\<rparr>]\<rparr>))
       (info\<lparr>Processors := []\<rparr>)"

definition pollMemory :: machinePollFunction where
  "pollMemory c info =
     forEachResource (c_MemoryModules c)
       (\<lambda>r i.
          if mm_Size r = 0 then (None, i)
          else (None, i\<lparr>MemoryModules := MemoryModules i @
                  [\<lparr>SizeMb = mm_Size r, m_Description = mm_Manufacturer r\<rparr>]\<rparr>))
       (info\<lparr>MemoryModules := []\<rparr>)"

definition pollPlatformMetadata :: machinePollFunction where
  "pollPlatformMetadata c info =
     forEachResource (c_PlatformMetadatas c)
       (\<lambda>r i. (None, i\<lparr>PlatformMetadata := Some
                  \<lparr>Platform = pm_Platform r,
                   ms_Hostname = pm_Hostname r,
                   Region = pm_Region r,
                   Zone = pm_Zone r,
                   InstanceType = pm_InstanceType r,
                   InstanceId = pm_InstanceID r,
                   ProviderId = pm_ProviderID r,
                   Spot = pm_Spot r\<rparr>\<rparr>))
       info"

definition blockDevice :: "Disk \<Rightarrow> HardwareStatus_BlockDevice" where
  "blockDevice disk =
     \<lparr>bd_Size = disk_Size disk,
      bd_Model = disk_Model disk,
      bd_LinuxName = disk_DeviceName disk,
      bd_Name = disk_Name disk,
      bd_Serial = disk_Serial disk,
      bd_Uuid = disk_Uuid disk,
      bd_Wwid = disk_Wwid disk,
      bd_Type = disk_Type disk,
      bd_BusPath = disk_BusPath disk,
      bd_SystemDisk = disk_SystemDisk disk\<rparr>"

definition pollDisks :: machinePollFunction where
  "pollDisks c info =
     (let info1 = info\<lparr>Blockdevices := []\<rparr> in
      case c_Disks c of (disksResp, err) \<Rightarrow>
        if err \<noteq> None then (err, info1)
        else (None,
              foldl (\<lambda>i msg.
                       foldl (\<lambda>j disk. j\<lparr>Blockdevices := Blockdevices j @ [blockDevice disk]\<rparr>)
                         i (disks_Disks msg))
                info1 (GetMessages disksResp)))"

text \<open>
  \<open>runtime.MetaKeyTagToID(tag)\<close> (Talos machinery) is \<open>fmt.Sprintf("0x%02x", tag)\<close>.
\<close>

definition hexDigit :: "nat \<Rightarrow> char" where
  "hexDigit n = ''0123456789abcdef'' ! (n mod 16)"

definition MetaKeyTagToID :: "8 word \<Rightarrow> string" where
  "MetaKeyTagToID t = ''0x'' @ [hexDigit (unat t div 16), hexDigit (unat t mod 16)]"

text \<open>The Go builtin \<open>delete(m, k)\<close>.\<close>

definition delete :: "(string \<rightharpoonup> string) \<Rightarrow> string \<Rightarrow> (string \<rightharpoonup> string)" where
  "delete m k = m(k := None)"

text \<open>
  The callback of \<open>pollMeta\<close>. The constant \<open>meta.LabelsMeta\<close> and the decoder
  \<open>meta.ParseLabels\<close> belong to a package whose source is missing: they are the
  parameters \<open>LabelsMeta\<close> and \<open>ParseLabels\<close>. The decoder returns a pointer and an
  error as Go does, \<open>None\<close> being nil; the callback reads the labels through the
  pointer without a nil check, which panics on a nil pointer.
\<close>

definition metaCallback ::
  "(string \<Rightarrow> ImageLabels option \<times> error option) \<Rightarrow> 8 word \<Rightarrow> MetaKey \<Rightarrow> Info
     \<Rightarrow> panic + error option \<times> Info" where
  "metaCallback ParseLabels LabelsMeta metaKey info =
     (if mk_ID metaKey \<noteq> MetaKeyTagToID LabelsMeta then Inr (None, info)
      else case ParseLabels (mk_Value metaKey) of (imageLabels, err) \<Rightarrow>
        if err \<noteq> None then Inr (err, info)
        else (case imageLabels of
                None \<Rightarrow> Inl NilPointerDereference
              | Some il \<Rightarrow>
                  (let labels = il_Labels il;
                       labels1 = (if labels = None then il_LegacyLabels il else labels);
                       labels2 = (case (labels1, MachineLabels info) of
                                    (Some m, Some ml) \<Rightarrow>
                                      Some (foldl delete m (Keys (ml_Labels ml)))
                                  | _ \<Rightarrow> labels1)
                   in Inr (None, info\<lparr>ImageLabels := labels2\<rparr>))))"

definition pollMeta ::
  "(string \<Rightarrow> ImageLabels option \<times> error option) \<Rightarrow> 8 word \<Rightarrow> client \<Rightarrow> Info
     \<Rightarrow> panic + error option \<times> Info" where
  "pollMeta ParseLabels LabelsMeta c info =
     forEachResourceP (c_MetaKeys c) (metaCallback ParseLabels LabelsMeta) info"

definition pollExtensions :: machinePollFunction where
  "pollExtensions c info =
     (case c_SchematicID c of (schematicID, err) \<Rightarrow>
        (let machineSchematic = \<lparr>Id = schematicID, Invalid = False\<rparr> in
           (case err of
              Some e \<Rightarrow>
                (if errors_Is e ErrInvalidSchematic
                 then (None, info\<lparr>Schematic := Some (machineSchematic\<lparr>Invalid := True\<rparr>)\<rparr>)
                 else (Some e, info\<lparr>Schematic := Some machineSchematic\<rparr>))
            | None \<Rightarrow> (None, info\<lparr>Schematic := Some machineSchematic\<rparr>))))"

section \<open>The dispatcher\<close>

text \<open>The resource types of the Talos machinery that name the resource pollers.\<close>

definition HostnameStatusType :: string where
  "HostnameStatusType = ''HostnameStatuses.net.talos.dev''"

definition RouteStatusType :: string where
  "RouteStatusType = ''RouteStatuses.net.talos.dev''"

definition NodeAddressType :: string where
  "NodeAddressType = ''NodeAddresses.net.talos.dev''"

definition LinkStatusType :: string where
  "LinkStatusType = ''LinkStatuses.net.talos.dev''"

definition ProcessorType :: string where
  "ProcessorType = ''Processors.hardware.talos.dev''"

definition MemoryModuleType :: string where
  "MemoryModuleType = ''MemoryModules.hardware.talos.dev''"

definition PlatformMetadataType :: string where
  "PlatformMetadataType = ''PlatformMetadatas.talos.dev''"

definition MetaKeyType :: string where
  "MetaKeyType = ''MetaKeys.runtime.talos.dev''"

definition ExtensionStatusType :: string where
  "ExtensionStatusType = ''ExtensionStatuses.runtime.talos.dev''"

text \<open>
  The values of the poller maps: poll functions that return or panic. \<open>returning f\<close>
  is the poll function \<open>f\<close>, whose body has no panic, as such a value.
\<close>

type_synonym pollFunction = "client \<Rightarrow> Info \<Rightarrow> panic + error option \<times> Info"

definition returning :: "machinePollFunction \<Rightarrow> pollFunction" where
  "returning f c info = Inr (f c info)"

definition resourcePollers ::
  "(string \<Rightarrow> ImageLabels option \<times> error option) \<Rightarrow> 8 word \<Rightarrow> (string \<rightharpoonup> pollFunction)" where
  "resourcePollers ParseLabels LabelsMeta = map_of
     [(HostnameStatusType, returning pollHostname),
      (RouteStatusType, returning pollRoutes),
      (NodeAddressType, returning pollAddresses),
      (LinkStatusType, returning pollNetworkLinks),
      (ProcessorType, returning pollProcessors),
      (MemoryModuleType, returning pollMemory),
      (PlatformMetadataType, returning pollPlatformMetadata),
      (MetaKeyType, pollMeta ParseLabels LabelsMeta),
      (ExtensionStatusType, returning pollExtensions)]"

definition machinePollers :: "string \<rightharpoonup> pollFunction" where
  "machinePollers =
     map_of [(''version'', returning pollVersion), (''disks'', returning pollDisks)]"

text \<open>\<open>maps.Clone(m1)\<close>, then \<open>maps.Copy(res, m2)\<close>: every key of \<open>m2\<close> is stored over \<open>m1\<close>.\<close>

definition merged :: "('k \<rightharpoonup> 'v) \<Rightarrow> ('k \<rightharpoonup> 'v) \<Rightarrow> ('k \<rightharpoonup> 'v)" where
  "merged m1 m2 = (\<lambda>k. case m2 k of Some v \<Rightarrow> Some v | None \<Rightarrow> m1 k)"

definition allPollers ::
  "(string \<Rightarrow> ImageLabels option \<times> error option) \<Rightarrow> 8 word \<Rightarrow> (string \<rightharpoonup> pollFunction)" where
  "allPollers ParseLabels LabelsMeta =
     merged (resourcePollers ParseLabels LabelsMeta) machinePollers"

definition poll ::
  "(string \<Rightarrow> ImageLabels option \<times> error option) \<Rightarrow> 8 word \<Rightarrow> string \<Rightarrow> pollFunction" where
  "poll ParseLabels LabelsMeta poller c info =
     (case allPollers ParseLabels LabelsMeta poller of
        None \<Rightarrow> Inl (UnknownPoller poller)
      | Some f \<Rightarrow> f c info)"

section \<open>Reading the labels\<close>

text \<open>
  The value of key \<open>k\<close> in a map that may be nil (Go: \<open>v, ok := m[k]\<close>; a nil map has
  no keys).
\<close>

definition labelOf :: "(string \<rightharpoonup> string) option \<Rightarrow> string \<Rightarrow> string option" where
  "labelOf labels k = (case labels of None \<Rightarrow> None | Some m \<Rightarrow> m k)"

text \<open>The decoded labels a meta key carries: the legacy shape when \<open>Labels\<close> is nil.\<close>

definition decodedLabels :: "ImageLabels \<Rightarrow> (string \<rightharpoonup> string) option" where
  "decodedLabels imageLabels =
     (case il_Labels imageLabels of None \<Rightarrow> il_LegacyLabels imageLabels | Some m \<Rightarrow> Some m)"

text \<open>
  Masking, in the words of the spec: any key also present in the machine labels is
  removed from the image labels; without a machine labels resource, or without image
  labels, nothing is removed.
\<close>

definition maskedBy ::
  "MachineLabels option \<Rightarrow> (string \<rightharpoonup> string) option \<Rightarrow> (string \<rightharpoonup> string) option" where
  "maskedBy machineLabels labels =
     (case machineLabels of
        None \<Rightarrow> labels
      | Some ml \<Rightarrow> map_option (\<lambda>m. m |` (- set (Keys (ml_Labels ml)))) labels)"

text \<open>The meta keys that \<open>pollMeta\<close> consumes: those with the id of the labels tag.\<close>

definition isLabelsKey :: "8 word \<Rightarrow> MetaKey \<Rightarrow> bool" where
  "isLabelsKey LabelsMeta metaKey \<longleftrightarrow> mk_ID metaKey = MetaKeyTagToID LabelsMeta"

section \<open>Example machines\<close>

text \<open>A snapshot in which every poller has observed something.\<close>

definition observedInfo :: Info where
  "observedInfo =
     \<lparr>TalosVersion = Some ''v1.6.4'',
      Arch = Some ''amd64'',
      Hostname = Some ''node1'',
      Domainname = Some ''lan'',
      Addresses = [''10.5.0.2/24''],
      DefaultGateways = [''192.168.1.1''],
      NetworkLinks = [],
      Processors = [],
      MemoryModules = [],
      Blockdevices =
        [\<lparr>bd_Size = 1024, bd_Model = ''disk'', bd_LinuxName = ''/dev/sda'', bd_Name = ''sda'',
          bd_Serial = ''s1'', bd_Uuid = ''u1'', bd_Wwid = ''w1'', bd_Type = ''SSD'',
          bd_BusPath = ''/pci0'', bd_SystemDisk = True\<rparr>],
      PlatformMetadata = None,
      Schematic = None,
      ImageLabels = Some [''label1'' \<mapsto> ''value1''],
      MaintenanceMode = False,
      MachineLabels = Some \<lparr>ml_Labels = [(''label2'', ''aaa'')]\<rparr>\<rparr>"

text \<open>A machine on which every call fails with the given error.\<close>

definition failingClient :: "error \<Rightarrow> client" where
  "failingClient e =
     \<lparr>c_Version = (None, Some e),
      c_Disks = (None, Some e),
      c_HostnameStatuses = Inl e,
      c_RouteStatuses = Inl e,
      c_NodeAddresses = Inl e,
      c_LinkStatuses = Inl e,
      c_Processors = Inl e,
      c_MemoryModules = Inl e,
      c_PlatformMetadatas = Inl e,
      c_MetaKeys = Inl e,
      c_SchematicID = ([], Some e)\<rparr>"

text \<open>A machine that answers every call, with nothing to report.\<close>

definition quietClient :: client where
  "quietClient =
     \<lparr>c_Version = (Some [], None),
      c_Disks = (Some [], None),
      c_HostnameStatuses = Inr [],
      c_RouteStatuses = Inr [],
      c_NodeAddresses = Inr [],
      c_LinkStatuses = Inr [],
      c_Processors = Inr [],
      c_MemoryModules = Inr [],
      c_PlatformMetadatas = Inr [],
      c_MetaKeys = Inr [],
      c_SchematicID = ([], None)\<rparr>"

definition cancelled :: error where
  "cancelled = StatusError Canceled ''context canceled''"

text \<open>A machine with resources to report, and a decoder for its two meta values.\<close>

definition exampleRoutes :: "RouteStatus list" where
  "exampleRoutes =
     [\<lparr>rs_Destination = \<lparr>prefix_IsZero = True,
          prefix_Addr = \<lparr>addr_IsValid = False, addr_IsULA_SideroLink = False, addr_String = ''invalid IP''\<rparr>,
          prefix_String = ''invalid Prefix''\<rparr>,
       rs_Gateway = \<lparr>addr_IsValid = True, addr_IsULA_SideroLink = False, addr_String = ''192.168.1.1''\<rparr>,
       rs_Scope = ScopeGlobal\<rparr>,
      \<lparr>rs_Destination = \<lparr>prefix_IsZero = False,
          prefix_Addr = \<lparr>addr_IsValid = True, addr_IsULA_SideroLink = False, addr_String = ''192.168.1.0''\<rparr>,
          prefix_String = ''192.168.1.0/24''\<rparr>,
       rs_Gateway = \<lparr>addr_IsValid = False, addr_IsULA_SideroLink = False, addr_String = ''invalid IP''\<rparr>,
       rs_Scope = ScopeLink\<rparr>,
      \<lparr>rs_Destination = \<lparr>prefix_IsZero = True,
          prefix_Addr = \<lparr>addr_IsValid = False, addr_IsULA_SideroLink = False, addr_String = ''invalid IP''\<rparr>,
          prefix_String = ''invalid Prefix''\<rparr>,
       rs_Gateway = \<lparr>addr_IsValid = False, addr_IsULA_SideroLink = False, addr_String = ''invalid IP''\<rparr>,
       rs_Scope = ScopeGlobal\<rparr>,
      \<lparr>rs_Destination = \<lparr>prefix_IsZero = True,
          prefix_Addr = \<lparr>addr_IsValid = False, addr_IsULA_SideroLink = False, addr_String = ''invalid IP''\<rparr>,
          prefix_String = ''invalid Prefix''\<rparr>,
       rs_Gateway = \<lparr>addr_IsValid = True, addr_IsULA_SideroLink = False, addr_String = ''fe80::1''\<rparr>,
       rs_Scope = ScopeLink\<rparr>,
      \<lparr>rs_Destination = \<lparr>prefix_IsZero = True,
          prefix_Addr = \<lparr>addr_IsValid = False, addr_IsULA_SideroLink = False, addr_String = ''invalid IP''\<rparr>,
          prefix_String = ''invalid Prefix''\<rparr>,
       rs_Gateway = \<lparr>addr_IsValid = True, addr_IsULA_SideroLink = False, addr_String = ''2001:db8::1''\<rparr>,
       rs_Scope = ScopeGlobal\<rparr>]"

definition lanAddress :: netip_Prefix where
  "lanAddress =
     \<lparr>prefix_IsZero = False,
      prefix_Addr = \<lparr>addr_IsValid = True, addr_IsULA_SideroLink = False, addr_String = ''192.168.1.10''\<rparr>,
      prefix_String = ''192.168.1.10/24''\<rparr>"

definition podAddress :: netip_Prefix where
  "podAddress =
     \<lparr>prefix_IsZero = False,
      prefix_Addr = \<lparr>addr_IsValid = True, addr_IsULA_SideroLink = False, addr_String = ''10.244.0.1''\<rparr>,
      prefix_String = ''10.244.0.1/32''\<rparr>"

definition sideroLinkAddress :: netip_Prefix where
  "sideroLinkAddress =
     \<lparr>prefix_IsZero = False,
      prefix_Addr = \<lparr>addr_IsValid = True, addr_IsULA_SideroLink = True, addr_String = ''fdae:41e4:649b:9303::2''\<rparr>,
      prefix_String = ''fdae:41e4:649b:9303::2/64''\<rparr>"

definition exampleNodeAddresses :: "NodeAddress list" where
  "exampleNodeAddresses =
     [\<lparr>na_ID = ''current'', na_Addresses = [lanAddress, sideroLinkAddress, podAddress]\<rparr>,
      \<lparr>na_ID = ''current-no-k8s'', na_Addresses = [sideroLinkAddress, lanAddress]\<rparr>,
      \<lparr>na_ID = ''routed-no-k8s'', na_Addresses = [podAddress]\<rparr>]"

definition exampleLinks :: "LinkStatus list" where
  "exampleLinks =
     [\<lparr>ls_ID = ''eth0'', ls_Physical = True, ls_HardwareAddr = ''52:54:00:12:34:56'',
       ls_SpeedMegabits = 1000, ls_LinkState = True, ls_Vendor = ''Intel'', ls_Product = ''I210''\<rparr>,
      \<lparr>ls_ID = ''bond0'', ls_Physical = False, ls_HardwareAddr = ''52:54:00:12:34:56'',
       ls_SpeedMegabits = 2000, ls_LinkState = True, ls_Vendor = [], ls_Product = []\<rparr>,
      \<lparr>ls_ID = ''eth1'', ls_Physical = True, ls_HardwareAddr = ''52:54:00:12:34:57'',
       ls_SpeedMegabits = 10000, ls_LinkState = False, ls_Vendor = ''Intel'', ls_Product = ''X550''\<rparr>]"

definition exampleProcessors :: "Processor list" where
  "exampleProcessors =
     [\<lparr>pr_CoreCount = 8, pr_ThreadCount = 16, pr_MaxSpeed = 3200,
       pr_Manufacturer = ''AMD'', pr_ProductName = ''Ryzen''\<rparr>,
      \<lparr>pr_CoreCount = 0, pr_ThreadCount = 0, pr_MaxSpeed = 3200,
       pr_Manufacturer = ''AMD'', pr_ProductName = ''empty socket''\<rparr>,
      \<lparr>pr_CoreCount = 4, pr_ThreadCount = 4, pr_MaxSpeed = 0,
       pr_Manufacturer = ''QEMU'', pr_ProductName = ''virtual''\<rparr>]"

definition exampleMemory :: "MemoryModule list" where
  "exampleMemory =
     [\<lparr>mm_Size = 8192, mm_Manufacturer = ''Kingston''\<rparr>,
      \<lparr>mm_Size = 0, mm_Manufacturer = ''empty slot''\<rparr>,
      \<lparr>mm_Size = 16384, mm_Manufacturer = ''Samsung''\<rparr>]"

definition exampleMetaKeys :: "MetaKey list" where
  "exampleMetaKeys =
     [\<lparr>mk_ID = ''0x06'', mk_Value = ''upgrade''\<rparr>,
      \<lparr>mk_ID = ''0x0c'', mk_Value = ''labels''\<rparr>]"

definition exampleParseLabels :: "string \<Rightarrow> ImageLabels option \<times> error option" where
  "exampleParseLabels v =
     (if v = ''labels''
      then (Some \<lparr>il_Labels = Some [''label1'' \<mapsto> ''updated'', ''label2'' \<mapsto> ''override''],
                   il_LegacyLabels = None\<rparr>, None)
      else if v = ''legacy''
      then (Some \<lparr>il_Labels = None, il_LegacyLabels = Some [''label1'' \<mapsto> ''old'']\<rparr>, None)
      else (None, Some (ErrorString ''cannot decode'')))"

definition reportingClient :: client where
  "reportingClient =
     quietClient\<lparr>c_RouteStatuses := Inr exampleRoutes,
       c_NodeAddresses := Inr exampleNodeAddresses,
       c_LinkStatuses := Inr exampleLinks,
       c_Processors := Inr exampleProcessors,
       c_MemoryModules := Inr exampleMemory,
       c_MetaKeys := Inr exampleMetaKeys\<rparr>"

text \<open>
  The snapshot after the user has put a label over an image label: \<open>label1\<close> is in
  the image labels read earlier and in the machine labels.
\<close>

definition overriddenInfo :: Info where
  "overriddenInfo = observedInfo\<lparr>MachineLabels := Some \<lparr>ml_Labels = [(''label1'', ''gasp'')]\<rparr>\<rparr>"

text \<open>A machine whose Version call returns a message together with an Unimplemented error.\<close>

definition partialVersionClient :: client where
  "partialVersionClient =
     quietClient\<lparr>c_Version :=
       (Some [\<lparr>ver_Version = Some \<lparr>vi_Tag = ''v1.7.0'', vi_Arch = ''arm64''\<rparr>\<rparr>],
        Some (StatusError Unimplemented ''unknown method Version''))\<rparr>"

section \<open>The two forms of the scan\<close>

lemma scanResourcesP_returning:
  "scanResourcesP rs (\<lambda>r i. Inr (callback r i)) info = Inr (scanResources rs callback info)"
  by (induction rs arbitrary: info) (simp_all split: prod.splits option.splits)

lemma forEachResourceP_returning:
  "forEachResourceP listing (\<lambda>r i. Inr (callback r i)) info
     = Inr (forEachResource listing callback info)"
  by (cases listing)
     (simp_all add: forEachResourceP_def forEachResource_def scanResourcesP_returning)

section \<open>Version\<close>

lemma version_messages:
  "foldl (\<lambda>i msg. i\<lparr>TalosVersion := Some (GetTag (ver_Version msg)),
                     Arch := Some (GetArch (ver_Version msg))\<rparr>) info ms
   = (if ms = [] then info
      else info\<lparr>TalosVersion := Some (GetTag (ver_Version (last ms))),
                Arch := Some (GetArch (ver_Version (last ms)))\<rparr>)"
  by (induction ms arbitrary: info) simp_all

lemma pollVersion_failed:
  "c_Version c = (versionResp, Some e) \<Longrightarrow>
     pollVersion c info =
       (if StatusCode (Some e) = Unimplemented
        then (None,
              if GetMessages versionResp = [] then info
              else info\<lparr>TalosVersion := Some (GetTag (ver_Version (last (GetMessages versionResp)))),
                        Arch := Some (GetArch (ver_Version (last (GetMessages versionResp))))\<rparr>)
        else (Some e, info))"
  by (simp add: pollVersion_def version_messages)

text \<open>
  C4, as the claim states it, fails: after an Unimplemented error \<open>pollVersion\<close> still
  reads the messages of the response. On a machine whose Version call returns a message
  together with an Unimplemented error, \<open>pollVersion\<close> returns nil and has changed
  \<open>TalosVersion\<close> and \<open>Arch\<close>.
\<close>

theorem pollVersion_unimplemented_counterexample:
  "StatusCode (snd (c_Version partialVersionClient)) = Unimplemented \<and>
   fst (pollVersion partialVersionClient observedInfo) = None \<and>
   TalosVersion (snd (pollVersion partialVersionClient observedInfo)) \<noteq> TalosVersion observedInfo \<and>
   Arch (snd (pollVersion partialVersionClient observedInfo)) \<noteq> Arch observedInfo"
  by (simp add: pollVersion_def partialVersionClient_def StatusCode_def GetMessages_def
      GetTag_def GetArch_def observedInfo_def)

text \<open>
  C4, amended. When the Version RPC returns an error whose status code is
  Unimplemented, \<open>pollVersion\<close> returns nil; \<open>Info\<close> is unchanged when the response
  that came with the error carries no messages (a nil response carries none), and
  otherwise \<open>TalosVersion\<close> and \<open>Arch\<close> are those of its last message and nothing
  else changes. For an error with any other status code it returns that error and
  leaves \<open>Info\<close> unchanged.
\<close>

theorem pollVersion_error:
  "c_Version c = (versionResp, Some e) \<Longrightarrow>
     pollVersion c info =
       (if StatusCode (Some e) = Unimplemented
        then (None,
              if GetMessages versionResp = [] then info
              else info\<lparr>TalosVersion := Some (GetTag (ver_Version (last (GetMessages versionResp)))),
                        Arch := Some (GetArch (ver_Version (last (GetMessages versionResp))))\<rparr>)
        else (Some e, info))"
  by (rule pollVersion_failed)

theorem pollVersion_error_witness:
  "pollVersion (failingClient (StatusError Unimplemented ''unknown method Version'')) observedInfo
     = (None, observedInfo) \<and>
   pollVersion partialVersionClient observedInfo
     = (None, observedInfo\<lparr>TalosVersion := Some ''v1.7.0'', Arch := Some ''arm64''\<rparr>) \<and>
   pollVersion (failingClient cancelled) observedInfo = (Some cancelled, observedInfo)"
proof -
  have u: "c_Version (failingClient (StatusError Unimplemented ''unknown method Version''))
             = (None, Some (StatusError Unimplemented ''unknown method Version''))"
    by (simp add: failingClient_def)
  have p: "c_Version partialVersionClient
             = (Some [\<lparr>ver_Version = Some \<lparr>vi_Tag = ''v1.7.0'', vi_Arch = ''arm64''\<rparr>\<rparr>],
                Some (StatusError Unimplemented ''unknown method Version''))"
    by (simp add: partialVersionClient_def)
  have v: "c_Version (failingClient cancelled) = (None, Some cancelled)"
    by (simp add: failingClient_def)
  show ?thesis
    using pollVersion_error [OF u, of observedInfo] pollVersion_error [OF p, of observedInfo]
      pollVersion_error [OF v, of observedInfo]
    by (simp add: StatusCode_def GetMessages_def GetTag_def GetArch_def cancelled_def)
qed

section \<open>Routes\<close>

lemma scan_routes:
  "scanResources rs
     (\<lambda>r i.
        if prefix_IsZero (rs_Destination r) \<and> addr_IsValid (rs_Gateway r)
           \<and> rs_Scope r = ScopeGlobal
        then (None, i\<lparr>DefaultGateways := DefaultGateways i @ [addr_String (rs_Gateway r)]\<rparr>)
        else (None, i))
     info
   = (None, info\<lparr>DefaultGateways :=
        DefaultGateways info @ map (\<lambda>r. addr_String (rs_Gateway r)) (filter filterRoutes rs)\<rparr>)"
  by (induction rs arbitrary: info) (simp_all add: filterRoutes_def)

text \<open>
  C6. When the route listing succeeds, \<open>pollRoutes\<close> succeeds and \<open>DefaultGateways\<close>
  is exactly the list of the gateways of the routes that pass \<open>filterRoutes\<close>, in scan
  order, whatever it held before; a route passes iff its destination is zero, its
  gateway is valid and its scope is global. Nothing else of \<open>Info\<close> changes.
\<close>

theorem pollRoutes_gateways:
  "c_RouteStatuses c = Inr rs \<Longrightarrow>
     pollRoutes c info =
       (None, info\<lparr>DefaultGateways :=
                map (\<lambda>r. addr_String (rs_Gateway r)) (filter filterRoutes rs)\<rparr>) \<and>
     filterRoutes =
       (\<lambda>r. prefix_IsZero (rs_Destination r) \<and> addr_IsValid (rs_Gateway r)
             \<and> rs_Scope r = ScopeGlobal)"
proof
  assume "c_RouteStatuses c = Inr rs"
  then show "pollRoutes c info =
       (None, info\<lparr>DefaultGateways :=
                map (\<lambda>r. addr_String (rs_Gateway r)) (filter filterRoutes rs)\<rparr>)"
    by (simp add: pollRoutes_def forEachResource_def scan_routes)
next
  show "filterRoutes =
       (\<lambda>r. prefix_IsZero (rs_Destination r) \<and> addr_IsValid (rs_Gateway r)
             \<and> rs_Scope r = ScopeGlobal)"
    by (rule ext) (simp add: filterRoutes_def)
qed

theorem pollRoutes_gateways_witness:
  "pollRoutes reportingClient observedInfo =
     (None, observedInfo\<lparr>DefaultGateways := [''192.168.1.1'', ''2001:db8::1'']\<rparr>)"
proof -
  have l: "c_RouteStatuses reportingClient = Inr exampleRoutes"
    by (simp add: reportingClient_def)
  show ?thesis
    using pollRoutes_gateways [OF l, of observedInfo]
    by (simp add: exampleRoutes_def filterRoutes_def)
qed

section \<open>Links\<close>

lemma scan_links:
  "scanResources rs
     (\<lambda>r i.
        if \<not> ls_Physical r then (None, i)
        else (None, i\<lparr>NetworkLinks := NetworkLinks i @
                [\<lparr>LinuxName = ls_ID r,
                  HardwareAddress = ls_HardwareAddr r,
                  SpeedMbps = uint32 (ls_SpeedMegabits r),
                  LinkUp = ls_LinkState r,
                  nl_Description = ls_Vendor r @ '' '' @ ls_Product r\<rparr>]\<rparr>))
     info
   = (None, info\<lparr>NetworkLinks := NetworkLinks info @
        map (\<lambda>r. \<lparr>LinuxName = ls_ID r,
                   HardwareAddress = ls_HardwareAddr r,
                   SpeedMbps = uint32 (ls_SpeedMegabits r),
                   LinkUp = ls_LinkState r,
                   nl_Description = ls_Vendor r @ '' '' @ ls_Product r\<rparr>)
          (filter filterNetworkLinks rs)\<rparr>)"
  by (induction rs arbitrary: info) (simp_all add: filterNetworkLinks_def)

text \<open>
  C9. When the link listing succeeds, \<open>pollNetworkLinks\<close> succeeds and \<open>NetworkLinks\<close>
  holds one entry for each scanned link that is physical, in scan order, and none for
  the others: the entry records the id as Linux name, the hardware address, the speed
  converted to \<open>uint32\<close> (the speed itself when it fits 32 bits), the link state, and
  vendor and product joined by a space as description.
\<close>

theorem pollNetworkLinks_physical:
  "c_LinkStatuses c = Inr rs \<Longrightarrow>
     pollNetworkLinks c info =
       (None, info\<lparr>NetworkLinks :=
          map (\<lambda>r. \<lparr>LinuxName = ls_ID r,
                     HardwareAddress = ls_HardwareAddr r,
                     SpeedMbps = uint32 (ls_SpeedMegabits r),
                     LinkUp = ls_LinkState r,
                     nl_Description = ls_Vendor r @ '' '' @ ls_Product r\<rparr>)
            (filter filterNetworkLinks rs)\<rparr>) \<and>
     filterNetworkLinks = ls_Physical \<and>
     (\<forall>r \<in> set rs. 0 \<le> ls_SpeedMegabits r \<and> ls_SpeedMegabits r < 2 ^ 32 \<longrightarrow>
        uint (uint32 (ls_SpeedMegabits r)) = ls_SpeedMegabits r)"
proof (intro conjI)
  assume "c_LinkStatuses c = Inr rs"
  then show "pollNetworkLinks c info =
       (None, info\<lparr>NetworkLinks :=
          map (\<lambda>r. \<lparr>LinuxName = ls_ID r,
                     HardwareAddress = ls_HardwareAddr r,
                     SpeedMbps = uint32 (ls_SpeedMegabits r),
                     LinkUp = ls_LinkState r,
                     nl_Description = ls_Vendor r @ '' '' @ ls_Product r\<rparr>)
            (filter filterNetworkLinks rs)\<rparr>)"
    by (simp add: pollNetworkLinks_def forEachResource_def scan_links)
next
  show "filterNetworkLinks = ls_Physical"
    by (rule ext) (simp add: filterNetworkLinks_def)
next
  show "\<forall>r \<in> set rs. 0 \<le> ls_SpeedMegabits r \<and> ls_SpeedMegabits r < 2 ^ 32 \<longrightarrow>
          uint (uint32 (ls_SpeedMegabits r)) = ls_SpeedMegabits r"
    by (simp add: uint32_def uint_word_of_int take_bit_int_eq_self)
qed

theorem pollNetworkLinks_physical_witness:
  "pollNetworkLinks reportingClient observedInfo =
     (None, observedInfo\<lparr>NetworkLinks :=
        [\<lparr>LinuxName = ''eth0'', HardwareAddress = ''52:54:00:12:34:56'', SpeedMbps = 1000,
          LinkUp = True, nl_Description = ''Intel I210''\<rparr>,
         \<lparr>LinuxName = ''eth1'', HardwareAddress = ''52:54:00:12:34:57'', SpeedMbps = 10000,
          LinkUp = False, nl_Description = ''Intel X550''\<rparr>]\<rparr>) \<and>
   map (\<lambda>r. uint (uint32 (ls_SpeedMegabits r))) exampleLinks = [1000, 2000, 10000]"
proof -
  have l: "c_LinkStatuses reportingClient = Inr exampleLinks"
    by (simp add: reportingClient_def)
  note t = pollNetworkLinks_physical [OF l, of observedInfo]
  from t have "\<forall>r \<in> set exampleLinks. 0 \<le> ls_SpeedMegabits r \<and> ls_SpeedMegabits r < 2 ^ 32 \<longrightarrow>
        uint (uint32 (ls_SpeedMegabits r)) = ls_SpeedMegabits r"
    by blast
  then have speeds: "map (\<lambda>r. uint (uint32 (ls_SpeedMegabits r))) exampleLinks = [1000, 2000, 10000]"
    by (simp add: exampleLinks_def)
  from t have "pollNetworkLinks reportingClient observedInfo =
     (None, observedInfo\<lparr>NetworkLinks :=
        [\<lparr>LinuxName = ''eth0'', HardwareAddress = ''52:54:00:12:34:56'', SpeedMbps = 1000,
          LinkUp = True, nl_Description = ''Intel I210''\<rparr>,
         \<lparr>LinuxName = ''eth1'', HardwareAddress = ''52:54:00:12:34:57'', SpeedMbps = 10000,
          LinkUp = False, nl_Description = ''Intel X550''\<rparr>]\<rparr>)"
    by (simp add: exampleLinks_def uint32_def filterNetworkLinks_def)
  with speeds show ?thesis by blast
qed

section \<open>Processors and memory\<close>

lemma scan_processors:
  "scanResources rs
     (\<lambda>r i.
        if pr_CoreCount r = 0 \<or> pr_MaxSpeed r = 0 then (None, i)
        else (None, i\<lparr>Processors := Processors i @
                [\<lparr>CoreCount = pr_CoreCount r,
                  ThreadCount = pr_ThreadCount r,
                  Frequency = pr_MaxSpeed r,
                  Manufacturer = pr_Manufacturer r,
                  p_Description = pr_Manufacturer r @ '' '' @ pr_ProductName r\<rparr>]\<rparr>))
     info
   = (None, info\<lparr>Processors := Processors info @
        map (\<lambda>r. \<lparr>CoreCount = pr_CoreCount r,
                   ThreadCount = pr_ThreadCount r,
                   Frequency = pr_MaxSpeed r,
                   Manufacturer = pr_Manufacturer r,
                   p_Description = pr_Manufacturer r @ '' '' @ pr_ProductName r\<rparr>)
          (filter (\<lambda>r. pr_CoreCount r \<noteq> 0 \<and> pr_MaxSpeed r \<noteq> 0) rs)\<rparr>)"
  by (induction rs arbitrary: info) simp_all

lemma scan_memory:
  "scanResources rs
     (\<lambda>r i.
        if mm_Size r = 0 then (None, i)
        else (None, i\<lparr>MemoryModules := MemoryModules i @
                [\<lparr>SizeMb = mm_Size r, m_Description = mm_Manufacturer r\<rparr>]\<rparr>))
     info
   = (None, info\<lparr>MemoryModules := MemoryModules info @
        map (\<lambda>r. \<lparr>SizeMb = mm_Size r, m_Description = mm_Manufacturer r\<rparr>)
          (filter (\<lambda>r. mm_Size r \<noteq> 0) rs)\<rparr>)"
  by (induction rs arbitrary: info) simp_all

lemma pollProcessors_listed:
  "c_Processors c = Inr rs \<Longrightarrow>
     pollProcessors c info =
       (None, info\<lparr>Processors :=
          map (\<lambda>r. \<lparr>CoreCount = pr_CoreCount r,
                     ThreadCount = pr_ThreadCount r,
                     Frequency = pr_MaxSpeed r,
                     Manufacturer = pr_Manufacturer r,
                     p_Description = pr_Manufacturer r @ '' '' @ pr_ProductName r\<rparr>)
            (filter (\<lambda>r. pr_CoreCount r \<noteq> 0 \<and> pr_MaxSpeed r \<noteq> 0) rs)\<rparr>)"
  by (simp add: pollProcessors_def forEachResource_def scan_processors)

lemma pollMemory_listed:
  "c_MemoryModules c = Inr rs \<Longrightarrow>
     pollMemory c info =
       (None, info\<lparr>MemoryModules :=
          map (\<lambda>r. \<lparr>SizeMb = mm_Size r, m_Description = mm_Manufacturer r\<rparr>)
            (filter (\<lambda>r. mm_Size r \<noteq> 0) rs)\<rparr>)"
  by (simp add: pollMemory_def forEachResource_def scan_memory)

lemma pollProcessors_success:
  "pollProcessors c info = (None, info') \<Longrightarrow> \<exists>rs. c_Processors c = Inr rs"
  by (cases "c_Processors c") (simp_all add: pollProcessors_def forEachResource_def)

lemma pollMemory_success:
  "pollMemory c info = (None, info') \<Longrightarrow> \<exists>rs. c_MemoryModules c = Inr rs"
  by (cases "c_MemoryModules c") (simp_all add: pollMemory_def forEachResource_def)

text \<open>
  C8. After a successful run of \<open>pollProcessors\<close> every element of \<open>Processors\<close> has a
  core count and a frequency other than zero, and after a successful run of
  \<open>pollMemory\<close> every element of \<open>MemoryModules\<close> has a size other than zero: the
  snapshot holds an entry for each scanned resource without such a zero, in scan order,
  and the resources with one are skipped.
\<close>

theorem hardware_snapshot_nonzero:
  "(pollProcessors c info = (None, info') \<longrightarrow>
      (\<forall>p \<in> set (Processors info'). CoreCount p \<noteq> 0 \<and> Frequency p \<noteq> 0) \<and>
      (\<exists>rs. c_Processors c = Inr rs \<and>
         map CoreCount (Processors info') =
           map pr_CoreCount (filter (\<lambda>r. pr_CoreCount r \<noteq> 0 \<and> pr_MaxSpeed r \<noteq> 0) rs) \<and>
         map Frequency (Processors info') =
           map pr_MaxSpeed (filter (\<lambda>r. pr_CoreCount r \<noteq> 0 \<and> pr_MaxSpeed r \<noteq> 0) rs))) \<and>
   (pollMemory c info = (None, info'') \<longrightarrow>
      (\<forall>m \<in> set (MemoryModules info''). SizeMb m \<noteq> 0) \<and>
      (\<exists>rs. c_MemoryModules c = Inr rs \<and>
         map SizeMb (MemoryModules info'') = map mm_Size (filter (\<lambda>r. mm_Size r \<noteq> 0) rs)))"
proof (intro conjI impI)
  assume a: "pollProcessors c info = (None, info')"
  then obtain rs where rs: "c_Processors c = Inr rs"
    using pollProcessors_success by blast
  from a pollProcessors_listed [OF rs, of info]
  have i: "Processors info' =
          map (\<lambda>r. \<lparr>CoreCount = pr_CoreCount r,
                     ThreadCount = pr_ThreadCount r,
                     Frequency = pr_MaxSpeed r,
                     Manufacturer = pr_Manufacturer r,
                     p_Description = pr_Manufacturer r @ '' '' @ pr_ProductName r\<rparr>)
            (filter (\<lambda>r. pr_CoreCount r \<noteq> 0 \<and> pr_MaxSpeed r \<noteq> 0) rs)"
    by auto
  show "\<forall>p \<in> set (Processors info'). CoreCount p \<noteq> 0 \<and> Frequency p \<noteq> 0"
    unfolding i by auto
  show "\<exists>rs. c_Processors c = Inr rs \<and>
         map CoreCount (Processors info') =
           map pr_CoreCount (filter (\<lambda>r. pr_CoreCount r \<noteq> 0 \<and> pr_MaxSpeed r \<noteq> 0) rs) \<and>
         map Frequency (Processors info') =
           map pr_MaxSpeed (filter (\<lambda>r. pr_CoreCount r \<noteq> 0 \<and> pr_MaxSpeed r \<noteq> 0) rs)"
    using rs unfolding i by (simp add: comp_def)
next
  assume a: "pollMemory c info = (None, info'')"
  then obtain rs where rs: "c_MemoryModules c = Inr rs"
    using pollMemory_success by blast
  from a pollMemory_listed [OF rs, of info]
  have i: "MemoryModules info'' =
          map (\<lambda>r. \<lparr>SizeMb = mm_Size r, m_Description = mm_Manufacturer r\<rparr>)
            (filter (\<lambda>r. mm_Size r \<noteq> 0) rs)"
    by auto
  show "\<forall>m \<in> set (MemoryModules info''). SizeMb m \<noteq> 0"
    unfolding i by auto
  show "\<exists>rs. c_MemoryModules c = Inr rs \<and>
         map SizeMb (MemoryModules info'') = map mm_Size (filter (\<lambda>r. mm_Size r \<noteq> 0) rs)"
    using rs unfolding i by (simp add: comp_def)
qed

theorem hardware_snapshot_nonzero_witness:
  "map CoreCount (Processors (snd (pollProcessors reportingClient observedInfo))) = [8] \<and>
   map Frequency (Processors (snd (pollProcessors reportingClient observedInfo))) = [3200] \<and>
   map SizeMb (MemoryModules (snd (pollMemory reportingClient observedInfo))) = [8192, 16384]"
proof -
  have p: "c_Processors reportingClient = Inr exampleProcessors"
    and m: "c_MemoryModules reportingClient = Inr exampleMemory"
    by (simp_all add: reportingClient_def)
  have p': "pollProcessors reportingClient observedInfo =
      (None, snd (pollProcessors reportingClient observedInfo))"
    by (simp add: pollProcessors_listed [OF p])
  have m': "pollMemory reportingClient observedInfo =
      (None, snd (pollMemory reportingClient observedInfo))"
    by (simp add: pollMemory_listed [OF m])
  show ?thesis
    using hardware_snapshot_nonzero [of reportingClient observedInfo
        "snd (pollProcessors reportingClient observedInfo)"
        "snd (pollMemory reportingClient observedInfo)"] p p' m m'
    by (simp add: exampleProcessors_def exampleMemory_def)
qed

section \<open>Node addresses\<close>

lemma appendAddresses_filter:
  "appendAddresses acc addrs =
     acc @ map prefix_String (filter (\<lambda>a. \<not> addr_IsULA_SideroLink (prefix_Addr a)) addrs)"
  by (induction addrs arbitrary: acc) simp_all

lemma scan_addresses:
  "scanResources rs
     (\<lambda>r i.
        if (if MaintenanceMode i then na_ID r \<noteq> NodeAddressCurrentID
            else na_ID r \<noteq> FilteredNodeAddressID NodeAddressCurrentID NodeAddressFilterNoK8s)
        then (None, i)
        else (None, i\<lparr>Addresses := appendAddresses [] (na_Addresses r)\<rparr>))
     info
   = (None,
      if filter (filterAddresses (MaintenanceMode info)) rs = [] then info
      else info\<lparr>Addresses := appendAddresses []
             (na_Addresses (last (filter (filterAddresses (MaintenanceMode info)) rs)))\<rparr>)"
  by (induction rs arbitrary: info) (simp_all add: filterAddresses_def)

text \<open>
  C5. When the node address listing succeeds, \<open>pollAddresses\<close> succeeds and changes at
  most \<open>Addresses\<close>, and that only from a resource that \<open>filterAddresses\<close> selects for
  the mode of the \<open>Info\<close>: in maintenance mode the resource with the id \<open>current\<close>,
  otherwise the one with the id \<open>current-no-k8s\<close>. Without such a resource
  \<open>Addresses\<close> keeps its value; with one (the last scanned, were there several)
  \<open>Addresses\<close> is the list of the renderings of exactly those of its addresses that
  are not in the SideroLink range, in order.
\<close>

theorem pollAddresses_selected:
  "c_NodeAddresses c = Inr rs \<Longrightarrow>
     pollAddresses c info =
       (None,
        if filter (filterAddresses (MaintenanceMode info)) rs = [] then info
        else info\<lparr>Addresses :=
               map prefix_String
                 (filter (\<lambda>a. \<not> addr_IsULA_SideroLink (prefix_Addr a))
                    (na_Addresses (last (filter (filterAddresses (MaintenanceMode info)) rs))))\<rparr>) \<and>
     filterAddresses True = (\<lambda>r. na_ID r = ''current'') \<and>
     filterAddresses False = (\<lambda>r. na_ID r = ''current-no-k8s'')"
proof (intro conjI)
  assume "c_NodeAddresses c = Inr rs"
  then show "pollAddresses c info =
       (None,
        if filter (filterAddresses (MaintenanceMode info)) rs = [] then info
        else info\<lparr>Addresses :=
               map prefix_String
                 (filter (\<lambda>a. \<not> addr_IsULA_SideroLink (prefix_Addr a))
                    (na_Addresses (last (filter (filterAddresses (MaintenanceMode info)) rs))))\<rparr>)"
    by (simp add: pollAddresses_def forEachResource_def scan_addresses appendAddresses_filter)
next
  show "filterAddresses True = (\<lambda>r. na_ID r = ''current'')"
    by (simp add: filterAddresses_def NodeAddressCurrentID_def)
next
  show "filterAddresses False = (\<lambda>r. na_ID r = ''current-no-k8s'')"
    by (simp add: filterAddresses_def NodeAddressCurrentID_def NodeAddressFilterNoK8s_def
        FilteredNodeAddressID_def)
qed

theorem pollAddresses_selected_witness:
  "pollAddresses reportingClient observedInfo =
     (None, observedInfo\<lparr>Addresses := [''192.168.1.10/24'']\<rparr>) \<and>
   pollAddresses reportingClient (observedInfo\<lparr>MaintenanceMode := True\<rparr>) =
     (None, observedInfo\<lparr>MaintenanceMode := True,
              Addresses := [''192.168.1.10/24'', ''10.244.0.1/32'']\<rparr>)"
proof -
  have l: "c_NodeAddresses reportingClient = Inr exampleNodeAddresses"
    by (simp add: reportingClient_def)
  have n: "MaintenanceMode observedInfo = False"
    by (simp add: observedInfo_def)
  show ?thesis
    using pollAddresses_selected [OF l, of observedInfo]
      pollAddresses_selected [OF l, of "observedInfo\<lparr>MaintenanceMode := True\<rparr>"]
    by (simp add: n exampleNodeAddresses_def lanAddress_def podAddress_def
        sideroLinkAddress_def)
qed

section \<open>Image labels\<close>

lemma foldl_delete: "foldl delete m ks = m |` (- set ks)"
proof (induction ks arbitrary: m)
  case Nil
  show ?case by simp
next
  case (Cons k ks)
  have "delete m k |` (- set ks) = m |` (- set (k # ks))"
    by (rule ext) (simp add: delete_def restrict_map_def)
  with Cons show ?case by simp
qed

lemma metaCallback_other:
  "\<not> isLabelsKey LabelsMeta r \<Longrightarrow> metaCallback ParseLabels LabelsMeta r info = Inr (None, info)"
  by (simp add: metaCallback_def isLabelsKey_def)

lemma metaCallback_error:
  "isLabelsKey LabelsMeta r \<Longrightarrow> ParseLabels (mk_Value r) = (imageLabels, Some e) \<Longrightarrow>
     metaCallback ParseLabels LabelsMeta r info = Inr (Some e, info)"
  by (simp add: metaCallback_def isLabelsKey_def)

lemma metaCallback_nil:
  "isLabelsKey LabelsMeta r \<Longrightarrow> ParseLabels (mk_Value r) = (None, None) \<Longrightarrow>
     metaCallback ParseLabels LabelsMeta r info = Inl NilPointerDereference"
  by (simp add: metaCallback_def isLabelsKey_def)

lemma metaCallback_labels:
  "isLabelsKey LabelsMeta r \<Longrightarrow> ParseLabels (mk_Value r) = (Some il, None) \<Longrightarrow>
     metaCallback ParseLabels LabelsMeta r info =
       Inr (None, info\<lparr>ImageLabels := maskedBy (MachineLabels info) (decodedLabels il)\<rparr>)"
  by (cases "il_Labels il"; cases "il_LegacyLabels il"; cases "MachineLabels info")
     (simp_all add: metaCallback_def isLabelsKey_def maskedBy_def decodedLabels_def
        foldl_delete)

lemma scan_meta_filter:
  "scanResourcesP rs (metaCallback ParseLabels LabelsMeta) info =
     scanResourcesP (filter (isLabelsKey LabelsMeta) rs) (metaCallback ParseLabels LabelsMeta) info"
  by (induction rs arbitrary: info)
     (simp_all add: metaCallback_other split: sum.splits prod.splits option.splits)

lemma scan_meta:
  "scanResourcesP rs (metaCallback ParseLabels LabelsMeta) info = Inr (None, info') \<Longrightarrow>
     (if filter (isLabelsKey LabelsMeta) rs = [] then info' = info
      else \<exists>il. ParseLabels (mk_Value (last (filter (isLabelsKey LabelsMeta) rs))) = (Some il, None) \<and>
             info' = info\<lparr>ImageLabels := maskedBy (MachineLabels info) (decodedLabels il)\<rparr>)"
proof (induction rs arbitrary: info)
  case Nil
  then show ?case by simp
next
  case (Cons r rs)
  show ?case
  proof (cases "isLabelsKey LabelsMeta r")
    case False
    with Cons.prems
    have "scanResourcesP rs (metaCallback ParseLabels LabelsMeta) info = Inr (None, info')"
      by (simp add: metaCallback_other)
    from Cons.IH [OF this] False show ?thesis by simp
  next
    case True
    obtain imageLabels err where pl: "ParseLabels (mk_Value r) = (imageLabels, err)"
      by (cases "ParseLabels (mk_Value r)")
    show ?thesis
    proof (cases err)
      case (Some e)
      with True pl Cons.prems show ?thesis
        by (simp add: metaCallback_error)
    next
      case None
      show ?thesis
      proof (cases imageLabels)
        case nil: None
        with True pl None Cons.prems show ?thesis
          by (simp add: metaCallback_nil)
      next
        case (Some il)
        let ?info1 = "info\<lparr>ImageLabels := maskedBy (MachineLabels info) (decodedLabels il)\<rparr>"
        from True pl None Some Cons.prems
        have "scanResourcesP rs (metaCallback ParseLabels LabelsMeta) ?info1 = Inr (None, info')"
          by (simp add: metaCallback_labels)
        from Cons.IH [OF this] True pl None Some show ?thesis
          by (auto split: if_splits)
      qed
    qed
  qed
qed

text \<open>
  C3, as the claim states it, fails: a run of \<open>pollMeta\<close> that scans no labels meta key
  succeeds and leaves \<open>ImageLabels\<close> as it was. On a snapshot whose image labels, read
  earlier, hold \<open>label1\<close> and whose machine labels now hold \<open>label1\<close> too, a run on a
  machine without meta keys succeeds and \<open>label1\<close> is still in \<open>ImageLabels\<close>.
\<close>

theorem pollMeta_masks_user_labels_counterexample:
  "pollMeta exampleParseLabels 12 quietClient overriddenInfo = Inr (None, overriddenInfo) \<and>
   MachineLabels overriddenInfo = Some \<lparr>ml_Labels = [(''label1'', ''gasp'')]\<rparr> \<and>
   ''label1'' \<in> set (Keys [(''label1'', ''gasp'')]) \<and>
   labelOf (ImageLabels overriddenInfo) ''label1'' = Some ''value1''"
  by (simp add: pollMeta_def forEachResourceP_def quietClient_def overriddenInfo_def
      observedInfo_def Keys_def labelOf_def)

text \<open>
  C3, amended. After a successful run of \<open>pollMeta\<close> on an \<open>Info\<close> with machine
  labels: if the listing holds no labels meta key, \<open>Info\<close> is unchanged; if it holds
  one, that key (the last scanned, were there several) decoded without error to a
  non-nil result, and the resulting \<open>ImageLabels\<close> has no key of the machine labels
  and has every other key exactly as decoded (from \<open>Labels\<close>, or from the legacy shape
  when \<open>Labels\<close> is nil).
\<close>

theorem pollMeta_masks_user_labels:
  assumes "c_MetaKeys c = Inr rs"
    and "MachineLabels info = Some ml"
    and "pollMeta ParseLabels LabelsMeta c info = Inr (None, info')"
  shows "if filter (isLabelsKey LabelsMeta) rs = [] then info' = info
         else \<exists>il. ParseLabels (mk_Value (last (filter (isLabelsKey LabelsMeta) rs))) = (Some il, None) \<and>
           (\<forall>k. labelOf (ImageLabels info') k =
                  (if k \<in> set (Keys (ml_Labels ml)) then None else labelOf (decodedLabels il) k))"
proof (cases "filter (isLabelsKey LabelsMeta) rs = []")
  case True
  from assms(1,3)
  have "scanResourcesP rs (metaCallback ParseLabels LabelsMeta) info = Inr (None, info')"
    by (simp add: pollMeta_def forEachResourceP_def)
  from scan_meta [OF this] True show ?thesis by simp
next
  case False
  from assms(1,3)
  have "scanResourcesP rs (metaCallback ParseLabels LabelsMeta) info = Inr (None, info')"
    by (simp add: pollMeta_def forEachResourceP_def)
  from scan_meta [OF this] False
  obtain il where il: "ParseLabels (mk_Value (last (filter (isLabelsKey LabelsMeta) rs))) = (Some il, None)"
    and info': "info' = info\<lparr>ImageLabels := maskedBy (MachineLabels info) (decodedLabels il)\<rparr>"
    by auto
  have "labelOf (ImageLabels info') k =
          (if k \<in> set (Keys (ml_Labels ml)) then None else labelOf (decodedLabels il) k)" for k
    unfolding info' using assms(2)
    by (cases "decodedLabels il") (simp_all add: maskedBy_def labelOf_def restrict_map_def)
  with il False show ?thesis by auto
qed

theorem pollMeta_masks_user_labels_witness:
  "labelOf (ImageLabels (snd (projr (pollMeta exampleParseLabels 12 reportingClient observedInfo))))
     ''label2'' = None \<and>
   labelOf (ImageLabels (snd (projr (pollMeta exampleParseLabels 12 reportingClient observedInfo))))
     ''label1'' = Some ''updated'' \<and>
   snd (projr (pollMeta exampleParseLabels 12 quietClient overriddenInfo)) = overriddenInfo"
proof -
  have id: "MetaKeyTagToID 12 = ''0x0c''"
    by (simp add: MetaKeyTagToID_def hexDigit_def)
  have b1: "c_MetaKeys quietClient = Inr []"
    by (simp add: quietClient_def)
  have b2: "MachineLabels overriddenInfo = Some \<lparr>ml_Labels = [(''label1'', ''gasp'')]\<rparr>"
    by (simp add: overriddenInfo_def)
  have b3: "pollMeta exampleParseLabels 12 quietClient overriddenInfo =
      Inr (None, snd (projr (pollMeta exampleParseLabels 12 quietClient overriddenInfo)))"
    by (simp add: pollMeta_def forEachResourceP_def b1)
  from pollMeta_masks_user_labels [OF b1 b2 b3]
  have none: "snd (projr (pollMeta exampleParseLabels 12 quietClient overriddenInfo)) = overriddenInfo"
    by simp
  have keys: "filter (isLabelsKey 12) exampleMetaKeys = [\<lparr>mk_ID = ''0x0c'', mk_Value = ''labels''\<rparr>]"
    by (simp add: exampleMetaKeys_def isLabelsKey_def id)
  have a1: "c_MetaKeys reportingClient = Inr exampleMetaKeys"
    by (simp add: reportingClient_def)
  have a2: "MachineLabels observedInfo = Some \<lparr>ml_Labels = [(''label2'', ''aaa'')]\<rparr>"
    by (simp add: observedInfo_def)
  have "\<exists>i. pollMeta exampleParseLabels 12 reportingClient observedInfo = Inr (None, i)"
    by (simp add: pollMeta_def forEachResourceP_def a1 exampleMetaKeys_def metaCallback_def id
        exampleParseLabels_def Let_def split: option.splits)
  then have a3: "pollMeta exampleParseLabels 12 reportingClient observedInfo =
      Inr (None, snd (projr (pollMeta exampleParseLabels 12 reportingClient observedInfo)))"
    by auto
  from pollMeta_masks_user_labels [OF a1 a2 a3]
  obtain il where il: "exampleParseLabels ''labels'' = (Some il, None)"
    and masked: "\<And>k. labelOf (ImageLabels (snd (projr (pollMeta exampleParseLabels 12 reportingClient observedInfo)))) k =
        (if k \<in> set (Keys [(''label2'', ''aaa'')]) then None else labelOf (decodedLabels il) k)"
    by (auto simp: keys)
  from il have "decodedLabels il = Some [''label1'' \<mapsto> ''updated'', ''label2'' \<mapsto> ''override'']"
    by (auto simp: exampleParseLabels_def decodedLabels_def)
  then have "labelOf (ImageLabels (snd (projr (pollMeta exampleParseLabels 12 reportingClient observedInfo))))
     ''label2'' = None \<and>
   labelOf (ImageLabels (snd (projr (pollMeta exampleParseLabels 12 reportingClient observedInfo))))
     ''label1'' = Some ''updated''"
    unfolding masked by (simp add: Keys_def labelOf_def)
  with none show ?thesis by blast
qed

text \<open>
  C7. \<open>pollMeta\<close> consumes only the meta keys whose id is the id of the labels tag: a
  run over a listing equals the run over the labels keys of that listing, and without
  one it succeeds and leaves \<open>Info\<close> unchanged. The value of the labels key is decoded:
  a decoding error is returned with \<open>Info\<close> unchanged; a nil result without an error
  makes the poller panic; otherwise \<open>ImageLabels\<close> becomes the decoded \<open>Labels\<close>, or
  the decoded \<open>LegacyLabels\<close> when \<open>Labels\<close> is nil, masked by the machine labels of
  the \<open>Info\<close>, and nothing else changes.
\<close>

theorem pollMeta_labels_key:
  "c_MetaKeys c = Inr rs \<Longrightarrow>
     pollMeta ParseLabels LabelsMeta c info =
       pollMeta ParseLabels LabelsMeta
         (c\<lparr>c_MetaKeys := Inr (filter (\<lambda>r. mk_ID r = MetaKeyTagToID LabelsMeta) rs)\<rparr>) info \<and>
     (filter (\<lambda>r. mk_ID r = MetaKeyTagToID LabelsMeta) rs = [] \<longrightarrow>
        pollMeta ParseLabels LabelsMeta c info = Inr (None, info)) \<and>
     (\<forall>r. filter (\<lambda>r. mk_ID r = MetaKeyTagToID LabelsMeta) rs = [r] \<longrightarrow>
        pollMeta ParseLabels LabelsMeta c info =
          (case ParseLabels (mk_Value r) of
             (imageLabels, Some e) \<Rightarrow> Inr (Some e, info)
           | (None, None) \<Rightarrow> Inl NilPointerDereference
           | (Some il, None) \<Rightarrow>
               Inr (None, info\<lparr>ImageLabels :=
                  maskedBy (MachineLabels info)
                    (case il_Labels il of None \<Rightarrow> il_LegacyLabels il | Some m \<Rightarrow> Some m)\<rparr>)))"
proof (intro conjI allI impI)
  have key: "isLabelsKey LabelsMeta = (\<lambda>r. mk_ID r = MetaKeyTagToID LabelsMeta)"
    by (rule ext) (simp add: isLabelsKey_def)
  assume rs: "c_MetaKeys c = Inr rs"
  have run: "pollMeta ParseLabels LabelsMeta c info =
      scanResourcesP (filter (\<lambda>r. mk_ID r = MetaKeyTagToID LabelsMeta) rs)
        (metaCallback ParseLabels LabelsMeta) info"
    using rs scan_meta_filter [of rs ParseLabels LabelsMeta info]
    by (simp add: pollMeta_def forEachResourceP_def key)
  show "pollMeta ParseLabels LabelsMeta c info =
       pollMeta ParseLabels LabelsMeta
         (c\<lparr>c_MetaKeys := Inr (filter (\<lambda>r. mk_ID r = MetaKeyTagToID LabelsMeta) rs)\<rparr>) info"
    unfolding run by (simp add: pollMeta_def forEachResourceP_def)
  show "pollMeta ParseLabels LabelsMeta c info = Inr (None, info)"
    if "filter (\<lambda>r. mk_ID r = MetaKeyTagToID LabelsMeta) rs = []"
    unfolding run using that by simp
  show "pollMeta ParseLabels LabelsMeta c info =
          (case ParseLabels (mk_Value r) of
             (imageLabels, Some e) \<Rightarrow> Inr (Some e, info)
           | (None, None) \<Rightarrow> Inl NilPointerDereference
           | (Some il, None) \<Rightarrow>
               Inr (None, info\<lparr>ImageLabels :=
                  maskedBy (MachineLabels info)
                    (case il_Labels il of None \<Rightarrow> il_LegacyLabels il | Some m \<Rightarrow> Some m)\<rparr>))"
    if one: "filter (\<lambda>r. mk_ID r = MetaKeyTagToID LabelsMeta) rs = [r]" for r
  proof -
    have "r \<in> set (filter (\<lambda>r. mk_ID r = MetaKeyTagToID LabelsMeta) rs)"
      unfolding one by simp
    then have r: "isLabelsKey LabelsMeta r"
      by (simp add: isLabelsKey_def)
    obtain imageLabels err where pl: "ParseLabels (mk_Value r) = (imageLabels, err)"
      by (cases "ParseLabels (mk_Value r)")
    show ?thesis
      unfolding run one
      by (cases err; cases imageLabels)
         (simp_all add: pl metaCallback_error [OF r] metaCallback_nil [OF r]
            metaCallback_labels [OF r] decodedLabels_def)
  qed
qed

theorem pollMeta_labels_key_witness:
  "pollMeta exampleParseLabels 12 reportingClient (observedInfo\<lparr>MachineLabels := None\<rparr>) =
     Inr (None, observedInfo\<lparr>MachineLabels := None,
        ImageLabels := Some [''label1'' \<mapsto> ''updated'', ''label2'' \<mapsto> ''override'']\<rparr>) \<and>
   pollMeta exampleParseLabels 12
     (quietClient\<lparr>c_MetaKeys := Inr [\<lparr>mk_ID = ''0x0c'', mk_Value = ''legacy''\<rparr>]\<rparr>)
     (observedInfo\<lparr>MachineLabels := None\<rparr>) =
     Inr (None, observedInfo\<lparr>MachineLabels := None, ImageLabels := Some [''label1'' \<mapsto> ''old'']\<rparr>) \<and>
   pollMeta exampleParseLabels 12
     (quietClient\<lparr>c_MetaKeys := Inr [\<lparr>mk_ID = ''0x06'', mk_Value = ''upgrade''\<rparr>]\<rparr>) observedInfo =
     Inr (None, observedInfo) \<and>
   pollMeta (\<lambda>v. (None, None)) 12
     (quietClient\<lparr>c_MetaKeys := Inr [\<lparr>mk_ID = ''0x0c'', mk_Value = ''null''\<rparr>]\<rparr>) observedInfo =
     Inl NilPointerDereference"
proof -
  have id: "MetaKeyTagToID 12 = ''0x0c''"
    by (simp add: MetaKeyTagToID_def hexDigit_def)
  have a1: "c_MetaKeys reportingClient = Inr exampleMetaKeys"
    by (simp add: reportingClient_def)
  have a2: "c_MetaKeys (quietClient\<lparr>c_MetaKeys := Inr [\<lparr>mk_ID = ''0x0c'', mk_Value = ''legacy''\<rparr>]\<rparr>)
      = Inr [\<lparr>mk_ID = ''0x0c'', mk_Value = ''legacy''\<rparr>]"
    by simp
  have a3: "c_MetaKeys (quietClient\<lparr>c_MetaKeys := Inr [\<lparr>mk_ID = ''0x06'', mk_Value = ''upgrade''\<rparr>]\<rparr>)
      = Inr [\<lparr>mk_ID = ''0x06'', mk_Value = ''upgrade''\<rparr>]"
    by simp
  have a4: "c_MetaKeys (quietClient\<lparr>c_MetaKeys := Inr [\<lparr>mk_ID = ''0x0c'', mk_Value = ''null''\<rparr>]\<rparr>)
      = Inr [\<lparr>mk_ID = ''0x0c'', mk_Value = ''null''\<rparr>]"
    by simp
  have k1: "filter (\<lambda>r. mk_ID r = MetaKeyTagToID 12) exampleMetaKeys
      = [\<lparr>mk_ID = ''0x0c'', mk_Value = ''labels''\<rparr>]"
    by (simp add: exampleMetaKeys_def id)
  have k2: "filter (\<lambda>r. mk_ID r = MetaKeyTagToID 12) [\<lparr>mk_ID = ''0x0c'', mk_Value = ''legacy''\<rparr>]
      = [\<lparr>mk_ID = ''0x0c'', mk_Value = ''legacy''\<rparr>]"
    by (simp add: id)
  have k3: "filter (\<lambda>r. mk_ID r = MetaKeyTagToID 12) [\<lparr>mk_ID = ''0x06'', mk_Value = ''upgrade''\<rparr>] = []"
    by (simp add: id)
  have k4: "filter (\<lambda>r. mk_ID r = MetaKeyTagToID 12) [\<lparr>mk_ID = ''0x0c'', mk_Value = ''null''\<rparr>]
      = [\<lparr>mk_ID = ''0x0c'', mk_Value = ''null''\<rparr>]"
    by (simp add: id)
  have r1: "pollMeta exampleParseLabels 12 reportingClient (observedInfo\<lparr>MachineLabels := None\<rparr>) =
     Inr (None, observedInfo\<lparr>MachineLabels := None,
        ImageLabels := Some [''label1'' \<mapsto> ''updated'', ''label2'' \<mapsto> ''override'']\<rparr>)"
    using pollMeta_labels_key [OF a1, of exampleParseLabels 12
        "observedInfo\<lparr>MachineLabels := None\<rparr>", THEN conjunct2]
    unfolding k1 by (simp add: exampleParseLabels_def maskedBy_def)
  have r2: "pollMeta exampleParseLabels 12
     (quietClient\<lparr>c_MetaKeys := Inr [\<lparr>mk_ID = ''0x0c'', mk_Value = ''legacy''\<rparr>]\<rparr>)
     (observedInfo\<lparr>MachineLabels := None\<rparr>) =
     Inr (None, observedInfo\<lparr>MachineLabels := None, ImageLabels := Some [''label1'' \<mapsto> ''old'']\<rparr>)"
    using pollMeta_labels_key [OF a2, of exampleParseLabels 12
        "observedInfo\<lparr>MachineLabels := None\<rparr>", THEN conjunct2]
    unfolding k2 by (simp add: exampleParseLabels_def maskedBy_def)
  have r3: "pollMeta exampleParseLabels 12
     (quietClient\<lparr>c_MetaKeys := Inr [\<lparr>mk_ID = ''0x06'', mk_Value = ''upgrade''\<rparr>]\<rparr>) observedInfo =
     Inr (None, observedInfo)"
    using pollMeta_labels_key [OF a3, of exampleParseLabels 12 observedInfo, THEN conjunct2]
    unfolding k3 by simp
  have r4: "pollMeta (\<lambda>v. (None, None)) 12
     (quietClient\<lparr>c_MetaKeys := Inr [\<lparr>mk_ID = ''0x0c'', mk_Value = ''null''\<rparr>]\<rparr>) observedInfo =
     Inl NilPointerDereference"
    using pollMeta_labels_key [OF a4, of "\<lambda>v. (None, None)" 12 observedInfo, THEN conjunct2]
    unfolding k4 by simp
  from r1 r2 r3 r4 show ?thesis by blast
qed

section \<open>Schematic\<close>



section \<open>Dispatch\<close>

lemmas pollerNames =
  HostnameStatusType_def RouteStatusType_def NodeAddressType_def LinkStatusType_def
  ProcessorType_def MemoryModuleType_def PlatformMetadataType_def MetaKeyType_def
  ExtensionStatusType_def

text \<open>
  C10. \<open>poll\<close> calls the poll function registered under the poller's name, for each
  of the nine resource types and for \<open>version\<close> and \<open>disks\<close>, and panics for every
  other name; in the merge of the two maps an entry of the second map, that of the RPC
  pollers, wins over an entry of the first under the same key, and a key the second
  map lacks keeps the entry of the first.
\<close>

theorem poll_registered:
  "poll P L HostnameStatusType c info = Inr (pollHostname c info) \<and>
   poll P L RouteStatusType c info = Inr (pollRoutes c info) \<and>
   poll P L NodeAddressType c info = Inr (pollAddresses c info) \<and>
   poll P L LinkStatusType c info = Inr (pollNetworkLinks c info) \<and>
   poll P L ProcessorType c info = Inr (pollProcessors c info) \<and>
   poll P L MemoryModuleType c info = Inr (pollMemory c info) \<and>
   poll P L PlatformMetadataType c info = Inr (pollPlatformMetadata c info) \<and>
   poll P L MetaKeyType c info = pollMeta P L c info \<and>
   poll P L ExtensionStatusType c info = Inr (pollExtensions c info) \<and>
   poll P L ''version'' c info = Inr (pollVersion c info) \<and>
   poll P L ''disks'' c info = Inr (pollDisks c info) \<and>
   (\<forall>k. k \<notin> {HostnameStatusType, RouteStatusType, NodeAddressType, LinkStatusType,
             ProcessorType, MemoryModuleType, PlatformMetadataType, MetaKeyType,
             ExtensionStatusType, ''version'', ''disks''} \<longrightarrow>
        poll P L k c info = Inl (UnknownPoller k)) \<and>
   (\<forall>(m1 :: string \<rightharpoonup> pollFunction) m2 k f.
        (m2 k = Some f \<longrightarrow> merged m1 m2 k = Some f) \<and>
        (m2 k = None \<longrightarrow> merged m1 m2 k = m1 k))"
proof (intro conjI allI impI)
  fix k
  assume "k \<notin> {HostnameStatusType, RouteStatusType, NodeAddressType, LinkStatusType,
             ProcessorType, MemoryModuleType, PlatformMetadataType, MetaKeyType,
             ExtensionStatusType, ''version'', ''disks''}"
  then have "machinePollers k = None" and "resourcePollers P L k = None"
    by (simp_all add: machinePollers_def resourcePollers_def)
  then show "poll P L k c info = Inl (UnknownPoller k)"
    by (simp add: poll_def allPollers_def merged_def)
qed (simp_all add: poll_def allPollers_def merged_def machinePollers_def
      resourcePollers_def pollerNames returning_def)

theorem poll_registered_witness:
  "poll exampleParseLabels 12 ''uptime'' quietClient observedInfo = Inl (UnknownPoller ''uptime'') \<and>
   poll exampleParseLabels 12 ''disks'' quietClient observedInfo
     = Inr (pollDisks quietClient observedInfo) \<and>
   merged [''disks'' \<mapsto> returning pollHostname] [''disks'' \<mapsto> returning pollDisks] ''disks''
     = Some (returning pollDisks) \<and>
   merged [''disks'' \<mapsto> returning pollHostname] [''version'' \<mapsto> returning pollVersion] ''disks''
     = Some (returning pollHostname)"
proof -
  note t = poll_registered [of exampleParseLabels 12 quietClient observedInfo]
  have n: "''uptime'' \<notin> {HostnameStatusType, RouteStatusType, NodeAddressType, LinkStatusType,
             ProcessorType, MemoryModuleType, PlatformMetadataType, MetaKeyType,
             ExtensionStatusType, ''version'', ''disks''}"
    by (simp add: pollerNames)
  from t n have 1: "poll exampleParseLabels 12 ''uptime'' quietClient observedInfo
      = Inl (UnknownPoller ''uptime'')"
    by blast
  from t have 2: "poll exampleParseLabels 12 ''disks'' quietClient observedInfo
      = Inr (pollDisks quietClient observedInfo)"
    by blast
  from t have m: "\<And>(m1 :: string \<rightharpoonup> pollFunction) m2 k f.
        (m2 k = Some f \<longrightarrow> merged m1 m2 k = Some f) \<and>
        (m2 k = None \<longrightarrow> merged m1 m2 k = m1 k)"
    by blast
  have 3: "merged [''disks'' \<mapsto> returning pollHostname] [''disks'' \<mapsto> returning pollDisks] ''disks''
      = Some (returning pollDisks)"
    using m [of "[''disks'' \<mapsto> returning pollDisks]" "''disks''" "returning pollDisks"
        "[''disks'' \<mapsto> returning pollHostname]"]
    by simp
  have 4: "merged [''disks'' \<mapsto> returning pollHostname] [''version'' \<mapsto> returning pollVersion] ''disks''
      = Some (returning pollHostname)"
    using m [of "[''version'' \<mapsto> returning pollVersion]" "''disks''" "returning pollDisks"
        "[''disks'' \<mapsto> returning pollHostname]"]
    by simp
  from 1 2 3 4 show ?thesis by blast
qed

section \<open>A failed remote call\<close>

text \<open>
  C1, as the claim states it, fails: the pollers that accumulate reset their field
  before the remote call. On a machine whose calls are all cancelled, \<open>pollRoutes\<close>
  returns the error and has emptied \<open>DefaultGateways\<close>, and \<open>pollDisks\<close> returns the
  error and has emptied \<open>Blockdevices\<close>.
\<close>

theorem failed_poll_unchanged_counterexample:
  "fst (pollRoutes (failingClient cancelled) observedInfo) = Some cancelled \<and>
   DefaultGateways (snd (pollRoutes (failingClient cancelled) observedInfo))
     \<noteq> DefaultGateways observedInfo \<and>
   fst (pollDisks (failingClient cancelled) observedInfo) = Some cancelled \<and>
   Blockdevices (snd (pollDisks (failingClient cancelled) observedInfo))
     \<noteq> Blockdevices observedInfo"
  by (simp add: pollRoutes_def pollDisks_def forEachResource_def failingClient_def
      observedInfo_def Let_def)

text \<open>
  C1, amended. When the remote call of a poller fails with error \<open>e\<close>, no field of
  \<open>Info\<close> other than the poller's own has changed, and:
  \<^item> \<open>pollDisks\<close> returns \<open>e\<close> and has reset \<open>Blockdevices\<close> to empty;
  \<^item> \<open>pollVersion\<close> returns \<open>e\<close> and leaves \<open>Info\<close> unchanged, unless the status
    code of \<open>e\<close> is Unimplemented: then it returns nil, and \<open>TalosVersion\<close> and
    \<open>Arch\<close> are unchanged when the response carries no messages and those of its last
    message otherwise;
  \<^item> \<open>pollExtensions\<close> has stored a fresh schematic with the id the failed resolution
    returned; it returns \<open>e\<close> with \<open>Invalid\<close> false, unless \<open>e\<close> is, or wraps,
    \<open>ErrInvalidSchematic\<close>: then it returns nil with \<open>Invalid\<close> true;
  \<^item> of the resource pollers, whose listing fails in \<open>forEachResource\<close>, each returns
    \<open>e\<close>; \<open>pollRoutes\<close> has reset \<open>DefaultGateways\<close> to empty, and likewise
    \<open>pollNetworkLinks\<close>, \<open>pollProcessors\<close> and \<open>pollMemory\<close> their fields, while
    \<open>pollHostname\<close>, \<open>pollAddresses\<close>, \<open>pollPlatformMetadata\<close> and \<open>pollMeta\<close> leave
    \<open>Info\<close> unchanged.
\<close>

theorem failed_poll_frame:
  "(snd (c_Disks c) = Some e \<longrightarrow>
      pollDisks c info = (Some e, info\<lparr>Blockdevices := []\<rparr>)) \<and>
   (c_Version c = (versionResp, Some e) \<longrightarrow>
      pollVersion c info =
        (if StatusCode (Some e) = Unimplemented
         then (None,
               if GetMessages versionResp = [] then info
               else info\<lparr>TalosVersion := Some (GetTag (ver_Version (last (GetMessages versionResp)))),
                         Arch := Some (GetArch (ver_Version (last (GetMessages versionResp))))\<rparr>)
         else (Some e, info))) \<and>
   (c_SchematicID c = (v, Some e) \<longrightarrow>
      pollExtensions c info =
        (if errors_Is e ErrInvalidSchematic then None else Some e,
         info\<lparr>Schematic := Some \<lparr>Id = v, Invalid = errors_Is e ErrInvalidSchematic\<rparr>\<rparr>)) \<and>
   (c_RouteStatuses c = Inl e \<longrightarrow>
      pollRoutes c info = (Some e, info\<lparr>DefaultGateways := []\<rparr>)) \<and>
   (c_LinkStatuses c = Inl e \<longrightarrow>
      pollNetworkLinks c info = (Some e, info\<lparr>NetworkLinks := []\<rparr>)) \<and>
   (c_Processors c = Inl e \<longrightarrow>
      pollProcessors c info = (Some e, info\<lparr>Processors := []\<rparr>)) \<and>
   (c_MemoryModules c = Inl e \<longrightarrow>
      pollMemory c info = (Some e, info\<lparr>MemoryModules := []\<rparr>)) \<and>
   (c_HostnameStatuses c = Inl e \<longrightarrow> pollHostname c info = (Some e, info)) \<and>
   (c_NodeAddresses c = Inl e \<longrightarrow> pollAddresses c info = (Some e, info)) \<and>
   (c_PlatformMetadatas c = Inl e \<longrightarrow> pollPlatformMetadata c info = (Some e, info)) \<and>
   (c_MetaKeys c = Inl e \<longrightarrow> pollMeta P L c info = Inr (Some e, info))"
proof (intro conjI impI)
  assume "snd (c_Disks c) = Some e"
  then show "pollDisks c info = (Some e, info\<lparr>Blockdevices := []\<rparr>)"
    by (cases "c_Disks c") (simp add: pollDisks_def Let_def)
next
  assume "c_Version c = (versionResp, Some e)"
  then show "pollVersion c info =
        (if StatusCode (Some e) = Unimplemented
         then (None,
               if GetMessages versionResp = [] then info
               else info\<lparr>TalosVersion := Some (GetTag (ver_Version (last (GetMessages versionResp)))),
                         Arch := Some (GetArch (ver_Version (last (GetMessages versionResp))))\<rparr>)
         else (Some e, info))"
    by (rule pollVersion_failed)
next
  assume "c_SchematicID c = (v, Some e)"
  then show "pollExtensions c info =
        (if errors_Is e ErrInvalidSchematic then None else Some e,
         info\<lparr>Schematic := Some \<lparr>Id = v, Invalid = errors_Is e ErrInvalidSchematic\<rparr>\<rparr>)"
    by (simp add: pollExtensions_def Let_def)
qed (simp_all add: pollRoutes_def pollNetworkLinks_def pollProcessors_def pollMemory_def
      pollHostname_def pollAddresses_def pollPlatformMetadata_def pollMeta_def
      forEachResource_def forEachResourceP_def)

theorem failed_poll_frame_witness:
  "pollDisks (failingClient cancelled) observedInfo
     = (Some cancelled, observedInfo\<lparr>Blockdevices := []\<rparr>) \<and>
   pollVersion (failingClient cancelled) observedInfo = (Some cancelled, observedInfo) \<and>
   pollExtensions (failingClient cancelled) observedInfo
     = (Some cancelled, observedInfo\<lparr>Schematic := Some \<lparr>Id = [], Invalid = False\<rparr>\<rparr>) \<and>
   pollRoutes (failingClient cancelled) observedInfo
     = (Some cancelled, observedInfo\<lparr>DefaultGateways := []\<rparr>) \<and>
   pollNetworkLinks (failingClient cancelled) observedInfo
     = (Some cancelled, observedInfo\<lparr>NetworkLinks := []\<rparr>) \<and>
   pollProcessors (failingClient cancelled) observedInfo
     = (Some cancelled, observedInfo\<lparr>Processors := []\<rparr>) \<and>
   pollMemory (failingClient cancelled) observedInfo
     = (Some cancelled, observedInfo\<lparr>MemoryModules := []\<rparr>) \<and>
   pollHostname (failingClient cancelled) observedInfo = (Some cancelled, observedInfo) \<and>
   pollAddresses (failingClient cancelled) observedInfo = (Some cancelled, observedInfo) \<and>
   pollPlatformMetadata (failingClient cancelled) observedInfo = (Some cancelled, observedInfo) \<and>
   pollMeta exampleParseLabels 12 (failingClient cancelled) observedInfo
     = Inr (Some cancelled, observedInfo)"
  using failed_poll_frame
    [of "failingClient cancelled" cancelled observedInfo None "[]" exampleParseLabels 12]
  by (simp add: failingClient_def StatusCode_def cancelled_def)

end
